theory Spec2Isabelle
  imports Main
begin

section \<open>The queue manager of pg-boss (src/manager.js)\<close>

text \<open>
  The theory embeds the class \<open>Manager\<close> of \<open>src/manager.js\<close>. Promises are modelled by
  their outcome: a value of type \<open>error + 'a\<close>, where \<open>Inl\<close> is a rejection (or an
  exception thrown inside a \<open>then\<close> handler, which rejects the promise as well) and
  \<open>Inr\<close> a resolution. Every function that talks to the store takes the state of the
  store and returns the new one.
\<close>

subsection \<open>JavaScript values\<close>

text \<open>
  Numbers are modelled as integers: the numbers of this program are counts, priorities
  and durations in seconds. A function value is opaque and carries a label only.
\<close>

datatype jsval =
    JUndefined
  | JNull
  | JBool bool
  | JNum int
  | JStr string
  | JArr "jsval list"
  | JObj "(string \<times> jsval) list"
  | JFun string

fun typeof :: "jsval \<Rightarrow> string" where
  "typeof JUndefined = ''undefined''"
| "typeof JNull = ''object''"
| "typeof (JBool b) = ''boolean''"
| "typeof (JNum n) = ''number''"
| "typeof (JStr s) = ''string''"
| "typeof (JArr xs) = ''object''"
| "typeof (JObj kvs) = ''object''"
| "typeof (JFun f) = ''function''"

fun isArray :: "jsval \<Rightarrow> bool" where
  "isArray (JArr xs) = True"
| "isArray v = False"

text \<open>ToBoolean: the falsy values are undefined, null, false, 0 and the empty string.\<close>

fun truthy :: "jsval \<Rightarrow> bool" where
  "truthy JUndefined = False"
| "truthy JNull = False"
| "truthy (JBool b) = b"
| "truthy (JNum n) = (n \<noteq> 0)"
| "truthy (JStr s) = (s \<noteq> [])"
| "truthy (JArr xs) = True"
| "truthy (JObj kvs) = True"
| "truthy (JFun f) = True"

subsection \<open>Errors and the store\<close>

datatype error =
    AssertionError string  \<comment> \<open>thrown by \<open>assert(cond, message)\<close>\<close>
  | TypeError string       \<comment> \<open>a property read on undefined\<close>
  | Rejection string       \<comment> \<open>\<open>Promise.reject(message)\<close>\<close>
  | ValidationError string \<comment> \<open>raised by the argument checks of \<open>attorney.js\<close>\<close>
  | StoreError string      \<comment> \<open>\<open>db.executeSql\<close> rejected\<close>

text \<open>
  The commands are built by \<open>plans.js\<close> from the schema name; the manager only passes them
  on, so each is a constant here.
\<close>

datatype command = InsertJob | FetchNextJob | CompleteJobs | CancelJobs | FailJobs

record sqlresult =
  rowCount :: int
  rows :: "jsval list"

text \<open>
  \<open>db.executeSql(command, values)\<close>: the store is an external collaborator, a
  parameter of every operation. It maps its state, a command and the values to an
  outcome and its new state.
\<close>

type_synonym 'db executeSql =
  "'db \<Rightarrow> command \<Rightarrow> jsval list \<Rightarrow> (error + sqlresult) \<times> 'db"

text \<open>
  A store that also records every call it receives, in order. It is used to state what
  an operation sends to the store and how many times.
\<close>

definition recording ::
  "'db executeSql \<Rightarrow> ('db \<times> (command \<times> jsval list) list) executeSql" where
  "recording exec = (\<lambda>(d, calls) cmd vals.
     (case exec d cmd vals of (r, d') \<Rightarrow> (r, (d', calls @ [(cmd, vals)]))))"

subsection \<open>complete, fail and cancel\<close>

text \<open>
  Modelled from the spec: \<open>Attorney.assertAsync\<close> lives in \<open>attorney.js\<close>, which is
  not among the sources. By its use in \<open>mapCompletionIdArg\<close> it is the asynchronous form
  of \<open>assert\<close>: the promise rejects with the message when the argument is falsy and
  resolves otherwise.
\<close>

definition assertAsync :: "jsval \<Rightarrow> string \<Rightarrow> error + unit" where
  "assertAsync arg message = (if truthy arg then Inr () else Inl (AssertionError message))"

definition mapCompletionIdArg :: "jsval \<Rightarrow> string \<Rightarrow> error + jsval list" where
  "mapCompletionIdArg ident funcName =
     (let errorMessage = funcName @ ''() requires an id'' in
      case assertAsync ident errorMessage of
        Inl e \<Rightarrow> Inl e
      | Inr _ \<Rightarrow>
          (let ids = (case ident of JArr xs \<Rightarrow> xs | _ \<Rightarrow> [ident]) in
           if length ids = 0 then Inl (AssertionError errorMessage) else Inr ids))"

definition mapCompletionDataArg :: "jsval \<Rightarrow> jsval" where
  "mapCompletionDataArg data =
     (if data = JNull \<or> typeof data = ''undefined'' \<or> typeof data = ''function''
      then JNull
      else if typeof data = ''object'' \<and> \<not> isArray data
      then data
      else JObj [(''value'', data)])"

definition mapCompletionResponse :: "jsval list \<Rightarrow> sqlresult \<Rightarrow> jsval" where
  "mapCompletionResponse ids result =
     JObj [(''jobs'', JArr ids),
           (''requested'', JNum (int (length ids))),
           (''updated'', JNum (rowCount result))]"

text \<open>
  The common shape of \<open>complete\<close>, \<open>fail\<close> and \<open>cancel\<close>: normalise the ids, run one
  command, map its result. A rejection of the store is the rejection of the operation.
\<close>

definition complete :: "'db executeSql \<Rightarrow> jsval \<Rightarrow> jsval \<Rightarrow> 'db \<Rightarrow> (error + jsval) \<times> 'db" where
  "complete exec ident data d =
     (case mapCompletionIdArg ident ''complete'' of
        Inl e \<Rightarrow> (Inl e, d)
      | Inr ids \<Rightarrow>
          (case exec d CompleteJobs [JArr ids, mapCompletionDataArg data] of
             (Inl e, d') \<Rightarrow> (Inl e, d')
           | (Inr result, d') \<Rightarrow> (Inr (mapCompletionResponse ids result), d')))"

definition fail :: "'db executeSql \<Rightarrow> jsval \<Rightarrow> jsval \<Rightarrow> 'db \<Rightarrow> (error + jsval) \<times> 'db" where
  "fail exec ident data d =
     (case mapCompletionIdArg ident ''fail'' of
        Inl e \<Rightarrow> (Inl e, d)
      | Inr ids \<Rightarrow>
          (case exec d FailJobs [JArr ids, mapCompletionDataArg data] of
             (Inl e, d') \<Rightarrow> (Inl e, d')
           | (Inr result, d') \<Rightarrow> (Inr (mapCompletionResponse ids result), d')))"

definition cancel :: "'db executeSql \<Rightarrow> jsval \<Rightarrow> 'db \<Rightarrow> (error + jsval) \<times> 'db" where
  "cancel exec ident d =
     (case mapCompletionIdArg ident ''cancel'' of
        Inl e \<Rightarrow> (Inl e, d)
      | Inr ids \<Rightarrow>
          (case exec d CancelJobs [JArr ids] of
             (Inl e, d') \<Rightarrow> (Inl e, d')
           | (Inr result, d') \<Rightarrow> (Inr (mapCompletionResponse ids result), d')))"

subsection \<open>The collaborators that are not in manager.js\<close>

text \<open>
  Options objects are modelled as records whose fields are optional: \<open>None\<close> is a
  property that is absent. The numeric options hold numbers, \<open>startIn\<close> a number of
  seconds or an interval text; \<open>createJob\<close> itself may store null in \<open>startIn\<close>.
\<close>

datatype delay = NoDelay | NullDelay | Seconds int | Interval string

record publish_options =
  opt_startIn :: delay
  opt_singletonSeconds :: "int option"
  opt_singletonMinutes :: "int option"
  opt_singletonHours :: "int option"
  opt_singletonDays :: "int option"
  opt_retryLimit :: "int option"
  opt_expireIn :: "string option"
  opt_priority :: "int option"
  opt_singletonKey :: "string option"
  opt_singletonNextSlot :: bool

record subscribe_options =
  opt_batchSize :: "int option"
  opt_teamSize :: "int option"
  opt_newJobCheckInterval :: "int option"
  opt_newJobCheckIntervalSeconds :: "int option"

text \<open>
  The argument checks of \<open>attorney.js\<close>, the constant \<open>plans.completedJobSuffix\<close>, the
  configuration and the id generator \<open>uuid\<close> are not among the sources: they are
  parameters. The generator yields its \<open>n\<close>-th id as \<open>uuid n\<close>.
\<close>

record collaborators =
  checkPublishArgs :: "jsval list \<Rightarrow> error + (string \<times> jsval \<times> publish_options)"
  checkSubscribeArgs :: "string \<Rightarrow> jsval list \<Rightarrow> error + (subscribe_options \<times> jsval)"
  checkFetchArgs :: "jsval list \<Rightarrow> int option \<Rightarrow> error option"
  applyNewJobCheckInterval :: "subscribe_options \<Rightarrow> error + subscribe_options"
  completedJobSuffix :: string
  config_newJobCheckInterval :: int
  uuid :: "nat \<Rightarrow> string"

subsection \<open>Optional numbers under the JavaScript operators\<close>

text \<open>\<open>x > 0\<close>: false for an absent property (undefined compares as NaN) and for null.\<close>

definition positive :: "int option \<Rightarrow> bool" where
  "positive x = (case x of None \<Rightarrow> False | Some n \<Rightarrow> 0 < n)"

text \<open>ToBoolean of an optional number: undefined and 0 are falsy.\<close>

definition truthyNum :: "int option \<Rightarrow> bool" where
  "truthyNum x = (case x of None \<Rightarrow> False | Some n \<Rightarrow> n \<noteq> 0)"

text \<open>\<open>x || d\<close> with a number as the default.\<close>

definition orElse :: "int option \<Rightarrow> int \<Rightarrow> int" where
  "orElse x d = (case x of None \<Rightarrow> d | Some n \<Rightarrow> if n \<noteq> 0 then n else d)"

text \<open>\<open>x || y\<close> where both sides are optional numbers.\<close>

definition orOpt :: "int option \<Rightarrow> int option \<Rightarrow> int option" where
  "orOpt x y = (if truthyNum x then x else y)"

text \<open>\<open>s || d\<close> on an optional string: the empty string is falsy.\<close>

definition orText :: "string option \<Rightarrow> jsval \<Rightarrow> jsval" where
  "orText x d = (case x of None \<Rightarrow> d | Some s \<Rightarrow> if s \<noteq> [] then JStr s else d)"

definition numOrNull :: "int option \<Rightarrow> jsval" where
  "numOrNull x = (case x of None \<Rightarrow> JNull | Some n \<Rightarrow> JNum n)"

text \<open>\<open>'' + n\<close> for a positive integer: its decimal digits.\<close>

fun decimal :: "nat \<Rightarrow> string" where
  "decimal n =
     (if n < 10 then [''0123456789'' ! n]
      else decimal (n div 10) @ [''0123456789'' ! (n mod 10)])"

declare decimal.simps [simp del]

subsection \<open>publish and createJob\<close>

record 'db world =
  store :: 'db
  issued :: nat  \<comment> \<open>how many ids the generator has produced\<close>

text \<open>
  The first \<open>let\<close> of \<open>createJob\<close>. For an interval text \<open>s\<close> both reachable branches give
  \<open>s\<close> (\<open>'' + s\<close> when the text compares above 0, \<open>s\<close> itself by the \<open>typeof\<close> test), so
  the comparison of a text with 0 needs no model.
\<close>

definition startIn_of :: "publish_options \<Rightarrow> string" where
  "startIn_of options =
     (case opt_startIn options of
        Seconds n \<Rightarrow> if 0 < n then decimal (nat n) else ''0''
      | Interval s \<Rightarrow> s
      | NoDelay \<Rightarrow> ''0''
      | NullDelay \<Rightarrow> ''0'')"

definition singletonSeconds_of :: "publish_options \<Rightarrow> int option" where
  "singletonSeconds_of options =
     (if positive (opt_singletonSeconds options) then opt_singletonSeconds options
      else if positive (opt_singletonMinutes options)
        then Some (the (opt_singletonMinutes options) * 60)
      else if positive (opt_singletonHours options)
        then Some (the (opt_singletonHours options) * 60 * 60)
      else if positive (opt_singletonDays options)
        then Some (the (opt_singletonDays options) * 60 * 60 * 24)
      else None)"

text \<open>The array \<open>values\<close> handed to the insert command, for the id \<open>ident\<close>.\<close>

definition insert_values ::
  "string \<Rightarrow> string \<Rightarrow> jsval \<Rightarrow> publish_options \<Rightarrow> int option \<Rightarrow> jsval list" where
  "insert_values ident name data options singletonOffset =
     (let startIn = startIn_of options;
          singletonSeconds = singletonSeconds_of options;
          retryLimit = orElse (opt_retryLimit options) 0;
          expireIn = orText (opt_expireIn options) (JStr ''15 minutes'');
          priority = orElse (opt_priority options) 0;
          singletonKey = orText (opt_singletonKey options) JNull;
          singletonOffset = orElse singletonOffset 0
      in [JStr ident, JStr name, JNum priority, JNum retryLimit, JStr startIn, expireIn,
          data, singletonKey, numOrNull singletonSeconds, JNum singletonOffset])"

text \<open>
  The assignment \<open>options.startIn = singletonSeconds\<close> of the retry: a number or null.
\<close>

definition delay_of :: "int option \<Rightarrow> delay" where
  "delay_of x = (case x of None \<Rightarrow> NullDelay | Some n \<Rightarrow> Seconds n)"

text \<open>
  \<open>createJob\<close> mutates the options object of its caller, so the model returns the
  options next to the outcome. The argument \<open>singletonOffset\<close> is absent in the call
  from \<open>publish\<close> (\<open>None\<close>) and is \<open>singletonSeconds\<close>, a number or null, in the retry.
\<close>

function createJob ::
  "'db executeSql \<Rightarrow> (nat \<Rightarrow> string) \<Rightarrow> string \<Rightarrow> jsval \<Rightarrow> publish_options \<Rightarrow> int option
   \<Rightarrow> 'db world \<Rightarrow> (error + jsval) \<times> publish_options \<times> 'db world" where
  "createJob exec gen name data options singletonOffset w =
     (let singletonSeconds = singletonSeconds_of options;
          ident = gen (issued w);
          values = insert_values ident name data options singletonOffset
      in case exec (store w) InsertJob values of
           (Inl e, d') \<Rightarrow> (Inl e, options, \<lparr>store = d', issued = Suc (issued w)\<rparr>)
         | (Inr result, d') \<Rightarrow>
             if rowCount result = 1
               then (Inr (JStr ident), options, \<lparr>store = d', issued = Suc (issued w)\<rparr>)
             else if \<not> opt_singletonNextSlot options
               then (Inr JNull, options, \<lparr>store = d', issued = Suc (issued w)\<rparr>)
             else createJob exec gen name data
                    (options\<lparr>opt_startIn := delay_of singletonSeconds,
                             opt_singletonNextSlot := False\<rparr>)
                    singletonSeconds
                    \<lparr>store = d', issued = Suc (issued w)\<rparr>)"
  by pat_completeness auto
termination
  by (relation "measure (\<lambda>(exec, gen, name, data, options, singletonOffset, w).
                  if opt_singletonNextSlot options then 1 else 0)") auto

declare createJob.simps [simp del]

definition publish ::
  "collaborators \<Rightarrow> 'db executeSql \<Rightarrow> jsval list \<Rightarrow> 'db world \<Rightarrow> (error + jsval) \<times> 'db world" where
  "publish c exec args w =
     (case checkPublishArgs c args of
        Inl e \<Rightarrow> (Inl e, w)
      | Inr (name, data, options) \<Rightarrow>
          (case createJob exec (uuid c) name data options None w of
             (outcome, options', w') \<Rightarrow> (outcome, w')))"

subsection \<open>fetch\<close>

definition fetch ::
  "collaborators \<Rightarrow> 'db executeSql \<Rightarrow> jsval \<Rightarrow> int option \<Rightarrow> 'db \<Rightarrow> (error + jsval) \<times> 'db" where
  "fetch c exec name batchSize d =
     (let names = (case name of JArr xs \<Rightarrow> xs | _ \<Rightarrow> [name]) in
      case checkFetchArgs c names batchSize of
        Some e \<Rightarrow> (Inl e, d)
      | None \<Rightarrow>
          (case exec d FetchNextJob [JArr names, JNum (orElse batchSize 1)] of
             (Inl e, d') \<Rightarrow> (Inl e, d')
           | (Inr result, d') \<Rightarrow>
               (Inr (if length (rows result) = 0 then JNull
                     else if length (rows result) = 1 \<and> \<not> truthyNum batchSize
                       then rows result ! 0
                     else JArr (rows result)), d')))"

definition fetchCompleted ::
  "collaborators \<Rightarrow> 'db executeSql \<Rightarrow> string \<Rightarrow> int option \<Rightarrow> 'db \<Rightarrow> (error + jsval) \<times> 'db" where
  "fetchCompleted c exec name batchSize d =
     fetch c exec (JStr (name @ completedJobSuffix c)) batchSize d"

subsection \<open>subscribe, unsubscribe and stop\<close>

text \<open>
  Modelled from the spec: the class \<open>Worker\<close> (\<open>worker.js\<close>) is not among the sources.
  A worker is the Poller of the spec: it holds what \<open>watch\<close> puts into \<open>workerConfig\<close>
  (the name, the polling interval, and the batch size and callback its \<open>fetch\<close> and
  \<open>respond\<close> closures capture), \<open>start()\<close> begins the polling loop and \<open>stop()\<close> ends it
  for good.
\<close>

record worker =
  w_name :: string
  w_batchSize :: "int option"
  w_callback :: jsval
  w_interval :: "int option"
  running :: bool

text \<open>
  The manager's own state. \<open>subscriptions\<close> is the object \<open>this.subscriptions\<close>: its own
  keys in insertion order, each with the address of the worker it holds. \<open>workers\<close> is
  the heap of all workers constructed so far; an address is an index into it.
\<close>

record manager =
  subscriptions :: "(string \<times> nat) list"
  workers :: "worker list"

definition new_manager :: manager where
  "new_manager = \<lparr>subscriptions = [], workers = []\<rparr>"

text \<open>
  The operator \<open>in\<close> also finds the properties that the object literal \<open>{}\<close> inherits
  from \<open>Object.prototype\<close>.
\<close>

definition object_prototype_names :: "string list" where
  "object_prototype_names =
     [''constructor'', ''__defineGetter__'', ''__defineSetter__'', ''hasOwnProperty'',
      ''__lookupGetter__'', ''__lookupSetter__'', ''isPrototypeOf'',
      ''propertyIsEnumerable'', ''toString'', ''valueOf'', ''__proto__'',
      ''toLocaleString'']"

definition name_in :: "string \<Rightarrow> (string \<times> nat) list \<Rightarrow> bool" where
  "name_in name subs = (name \<in> set (map fst subs) \<or> name \<in> set object_prototype_names)"

definition watch ::
  "collaborators \<Rightarrow> string \<Rightarrow> subscribe_options \<Rightarrow> jsval \<Rightarrow> manager
   \<Rightarrow> (error + jsval) \<times> manager" where
  "watch c name options callback m =
     (if name_in name (subscriptions m)
      then (Inl (AssertionError ''this job has already been subscribed on this instance.''), m)
      else
        let options1 = options\<lparr>opt_batchSize :=
                          orOpt (opt_batchSize options) (opt_teamSize options)\<rparr>
        in case (if opt_newJobCheckInterval options1 \<noteq> None
                    \<or> opt_newJobCheckIntervalSeconds options1 \<noteq> None
                 then applyNewJobCheckInterval c options1
                 else Inr (options1\<lparr>opt_newJobCheckInterval :=
                                      Some (config_newJobCheckInterval c)\<rparr>)) of
             Inl e \<Rightarrow> (Inl e, m)
           | Inr options2 \<Rightarrow>
               (let worker = \<lparr>w_name = name,
                              w_batchSize = opt_batchSize options2,
                              w_callback = callback,
                              w_interval = opt_newJobCheckInterval options2,
                              running = True\<rparr>
                in (Inr (JBool True),
                    \<lparr>subscriptions = subscriptions m @ [(name, length (workers m))],
                     workers = workers m @ [worker]\<rparr>)))"

definition subscribe ::
  "collaborators \<Rightarrow> string \<Rightarrow> jsval list \<Rightarrow> manager \<Rightarrow> (error + jsval) \<times> manager" where
  "subscribe c name args m =
     (case checkSubscribeArgs c name args of
        Inl e \<Rightarrow> (Inl e, m)
      | Inr (options, callback) \<Rightarrow> watch c name options callback m)"

definition onComplete ::
  "collaborators \<Rightarrow> string \<Rightarrow> jsval list \<Rightarrow> manager \<Rightarrow> (error + jsval) \<times> manager" where
  "onComplete c name args m =
     (case checkSubscribeArgs c name args of
        Inl e \<Rightarrow> (Inl e, m)
      | Inr (options, callback) \<Rightarrow> watch c (name @ completedJobSuffix c) options callback m)"

text \<open>
  The closure \<open>fetch\<close> that \<open>watch\<close> gives to the worker, which calls it on every tick of
  its polling loop: \<open>() => this.fetch(name, options.batchSize)\<close>.
\<close>

definition poll ::
  "collaborators \<Rightarrow> 'db executeSql \<Rightarrow> worker \<Rightarrow> 'db \<Rightarrow> (error + jsval) \<times> 'db" where
  "poll c exec wk d = fetch c exec (JStr (w_name wk)) (w_batchSize wk) d"

text \<open>
  \<open>unsubscribe\<close>. For a name that is no key of its own but is inherited from
  \<open>Object.prototype\<close>, \<open>this.subscriptions[name]\<close> is truthy and has no \<open>worker\<close>, so
  the call of \<open>stop\<close> throws.
\<close>

definition unsubscribe :: "string \<Rightarrow> manager \<Rightarrow> (error + jsval) \<times> manager" where
  "unsubscribe name m =
     (case map_of (subscriptions m) name of
        None \<Rightarrow>
          if name \<in> set object_prototype_names
          then (Inl (TypeError ''Cannot read property 'stop' of undefined''), m)
          else (Inl (Rejection (''No subscriptions for '' @ name @ '' were found.'')), m)
      | Some a \<Rightarrow>
          (Inr (JBool True),
           \<lparr>subscriptions = filter (\<lambda>(k, b). k \<noteq> name) (subscriptions m),
            workers = (workers m)[a := (workers m ! a)\<lparr>running := False\<rparr>]\<rparr>))"

definition offComplete :: "collaborators \<Rightarrow> string \<Rightarrow> manager \<Rightarrow> (error + jsval) \<times> manager" where
  "offComplete c name m = unsubscribe (name @ completedJobSuffix c) m"

definition stop :: "manager \<Rightarrow> (error + jsval) \<times> manager" where
  "stop m =
     (let m' = fold (\<lambda>name acc. snd (unsubscribe name acc)) (map fst (subscriptions m)) m
      in (Inr (JBool True), m'\<lparr>subscriptions := []\<rparr>))"

text \<open>
  The calls that change the registry of a manager, and the states a manager reaches
  from its construction by any sequence of them.
\<close>

datatype call =
    Subscribe string "jsval list"
  | OnComplete string "jsval list"
  | Unsubscribe string
  | OffComplete string
  | Stop

fun perform :: "collaborators \<Rightarrow> call \<Rightarrow> manager \<Rightarrow> manager" where
  "perform c (Subscribe name args) m = snd (subscribe c name args m)"
| "perform c (OnComplete name args) m = snd (onComplete c name args m)"
| "perform c (Unsubscribe name) m = snd (unsubscribe name m)"
| "perform c (OffComplete name) m = snd (offComplete c name m)"
| "perform c Stop m = snd (stop m)"

definition run :: "collaborators \<Rightarrow> call list \<Rightarrow> manager" where
  "run c calls = fold (perform c) calls new_manager"

text \<open>The pollers of a name: the workers for it whose polling loop is running.\<close>

definition pollers :: "string \<Rightarrow> manager \<Rightarrow> worker list" where
  "pollers name m = filter (\<lambda>wk. running wk \<and> w_name wk = name) (workers m)"

text \<open>
  The invariant of the registry: its keys are distinct, every address it holds is the
  address of a worker, and every running worker is registered under its own name.
\<close>

definition registry_ok :: "manager \<Rightarrow> bool" where
  "registry_ok m \<longleftrightarrow>
     distinct (map fst (subscriptions m))
     \<and> (\<forall>(name, a) \<in> set (subscriptions m). a < length (workers m))
     \<and> (\<forall>a < length (workers m).
          running (workers m ! a) \<longrightarrow> (w_name (workers m ! a), a) \<in> set (subscriptions m))"

subsection \<open>The window rule in the words of the spec\<close>

text \<open>
  The spec resolves the window from the first member of the list singletonSeconds,
  singletonMinutes * 60, singletonHours * 3600, singletonDays * 86400 that is set, and
  to null when none is. A member is set when its option holds a number above 0; each
  member is paired with the number of seconds of its unit.
\<close>

definition first_set :: "(int option \<times> int) list \<Rightarrow> int option" where
  "first_set members =
     (case find (\<lambda>(x, seconds). positive x) members of
        None \<Rightarrow> None
      | Some (x, seconds) \<Rightarrow> map_option (\<lambda>n. n * seconds) x)"

definition spec_singletonSeconds :: "publish_options \<Rightarrow> int option" where
  "spec_singletonSeconds options =
     first_set [(opt_singletonSeconds options, 1), (opt_singletonMinutes options, 60),
                (opt_singletonHours options, 3600), (opt_singletonDays options, 86400)]"

text \<open>The calls that a run of \<open>createJob\<close> on a recording store has recorded.\<close>

definition calls_of ::
  "(error + jsval) \<times> publish_options \<times> ('db \<times> (command \<times> jsval list) list) world
   \<Rightarrow> (command \<times> jsval list) list" where
  "calls_of outcome = snd (store (snd (snd outcome)))"

subsection \<open>Fixtures for the examples\<close>

text \<open>
  A store that answers its calls from a script, one reply per call, whatever the
  command; options objects without any property; and collaborators that accept every
  argument.
\<close>

definition scripted :: "((error + sqlresult) list) executeSql" where
  "scripted d cmd vals =
     (case d of [] \<Rightarrow> (Inl (StoreError ''no reply''), []) | r # rs \<Rightarrow> (r, rs))"

definition no_options :: publish_options where
  "no_options =
     \<lparr>opt_startIn = NoDelay, opt_singletonSeconds = None, opt_singletonMinutes = None,
      opt_singletonHours = None, opt_singletonDays = None, opt_retryLimit = None,
      opt_expireIn = None, opt_priority = None, opt_singletonKey = None,
      opt_singletonNextSlot = False\<rparr>"

definition no_subscribe_options :: subscribe_options where
  "no_subscribe_options =
     \<lparr>opt_batchSize = None, opt_teamSize = None, opt_newJobCheckInterval = None,
      opt_newJobCheckIntervalSeconds = None\<rparr>"

definition lenient :: collaborators where
  "lenient =
     \<lparr>checkPublishArgs = (\<lambda>args. Inr (''job'', JNull, no_options)),
      checkSubscribeArgs = (\<lambda>name args. Inr (no_subscribe_options, JFun ''handler'')),
      checkFetchArgs = (\<lambda>names batchSize. None),
      applyNewJobCheckInterval = (\<lambda>options. Inr options),
      completedJobSuffix = ''__state__completed'',
      config_newJobCheckInterval = 1000,
      uuid = (\<lambda>n. ''id-'' @ decimal n)\<rparr>"

text \<open>Collaborators whose check of the subscribe arguments hands out the given options.\<close>

definition lenient_with :: "subscribe_options \<Rightarrow> collaborators" where
  "lenient_with options =
     lenient\<lparr>checkSubscribeArgs := (\<lambda>name args. Inr (options, JFun ''handler''))\<rparr>"

section \<open>Properties\<close>

subsection \<open>Helper lemmas on complete, fail and cancel\<close>

text \<open>
  The id argument is accepted exactly when it is truthy and not the empty array; the
  accepted ids are the array itself or the one-element list of the id.
\<close>

lemma mapCompletionIdArg_cases:
  "mapCompletionIdArg ident funcName =
     (if truthy ident \<and> ident \<noteq> JArr []
      then Inr (case ident of JArr xs \<Rightarrow> xs | _ \<Rightarrow> [ident])
      else Inl (AssertionError (funcName @ ''() requires an id'')))"
  by (cases ident) (simp_all add: mapCompletionIdArg_def assertAsync_def)

text \<open>
  What \<open>complete\<close>, \<open>fail\<close> and \<open>cancel\<close> send to the store: nothing when the id
  argument is refused, one command otherwise.
\<close>

lemma complete_calls:
  "snd (complete (recording exec) ident data (d, calls)) =
     (case mapCompletionIdArg ident ''complete'' of
        Inl e \<Rightarrow> (d, calls)
      | Inr ids \<Rightarrow>
          (snd (exec d CompleteJobs [JArr ids, mapCompletionDataArg data]),
           calls @ [(CompleteJobs, [JArr ids, mapCompletionDataArg data])]))"
  by (simp add: complete_def recording_def split: sum.splits prod.splits)

lemma fail_calls:
  "snd (fail (recording exec) ident data (d, calls)) =
     (case mapCompletionIdArg ident ''fail'' of
        Inl e \<Rightarrow> (d, calls)
      | Inr ids \<Rightarrow>
          (snd (exec d FailJobs [JArr ids, mapCompletionDataArg data]),
           calls @ [(FailJobs, [JArr ids, mapCompletionDataArg data])]))"
  by (simp add: fail_def recording_def split: sum.splits prod.splits)

lemma cancel_calls:
  "snd (cancel (recording exec) ident (d, calls)) =
     (case mapCompletionIdArg ident ''cancel'' of
        Inl e \<Rightarrow> (d, calls)
      | Inr ids \<Rightarrow>
          (snd (exec d CancelJobs [JArr ids]), calls @ [(CancelJobs, [JArr ids])]))"
  by (simp add: cancel_def recording_def split: sum.splits prod.splits)

subsection \<open>Payload normalisation\<close>

text \<open>
  Claim C5. A completion or failure payload that is null, absent (undefined) or a
  function is stored as null; an object that is not an array is stored as it is; a
  boolean, number or string \<open>v\<close> is stored as \<open>{value: v}\<close>. The normalised payload is
  the second value of the one command that \<open>complete\<close> and \<open>fail\<close> send to the store.
\<close>

theorem completion_payload_normalised:
  "mapCompletionDataArg JNull = JNull
   \<and> mapCompletionDataArg JUndefined = JNull
   \<and> mapCompletionDataArg (JFun f) = JNull
   \<and> mapCompletionDataArg (JObj kvs) = JObj kvs
   \<and> mapCompletionDataArg (JBool b) = JObj [(''value'', JBool b)]
   \<and> mapCompletionDataArg (JNum n) = JObj [(''value'', JNum n)]
   \<and> mapCompletionDataArg (JStr s) = JObj [(''value'', JStr s)]
   \<and> (mapCompletionIdArg ident ''complete'' = Inr ids \<longrightarrow>
        snd (snd (complete (recording exec) ident data (d, []))) =
          [(CompleteJobs, [JArr ids, mapCompletionDataArg data])])
   \<and> (mapCompletionIdArg ident ''fail'' = Inr ids \<longrightarrow>
        snd (snd (fail (recording exec) ident data (d, []))) =
          [(FailJobs, [JArr ids, mapCompletionDataArg data])])"
  by (simp add: mapCompletionDataArg_def complete_calls fail_calls)

theorem completion_payload_normalised_witness:
  "mapCompletionIdArg (JStr ''j1'') ''complete'' = Inr [JStr ''j1'']
   \<and> mapCompletionIdArg (JStr ''j1'') ''fail'' = Inr [JStr ''j1'']
   \<and> snd (snd (complete (recording scripted) (JStr ''j1'') (JObj [(''sent'', JBool True)])
                 ([Inr \<lparr>rowCount = 1, rows = []\<rparr>], []))) =
        [(CompleteJobs, [JArr [JStr ''j1''], JObj [(''sent'', JBool True)]])]
   \<and> snd (snd (fail (recording scripted) (JStr ''j1'') (JStr ''boom'')
                 ([Inr \<lparr>rowCount = 1, rows = []\<rparr>], []))) =
        [(FailJobs, [JArr [JStr ''j1''], JObj [(''value'', JStr ''boom'')]])]"
  using completion_payload_normalised
          [where ident = "JStr ''j1''" and ids = "[JStr ''j1'']" and exec = scripted
             and data = "JObj [(''sent'', JBool True)]"
             and d = "[Inr \<lparr>rowCount = 1, rows = []\<rparr>]"]
        completion_payload_normalised
          [where ident = "JStr ''j1''" and ids = "[JStr ''j1'']" and exec = scripted
             and data = "JStr ''boom''" and d = "[Inr \<lparr>rowCount = 1, rows = []\<rparr>]"]
  by (simp add: mapCompletionIdArg_cases)

text \<open>
  Claim C10. A payload that is an array \<open>a\<close> is stored as \<open>{value: a}\<close>, by \<open>complete\<close>
  and by \<open>fail\<close>.
\<close>

theorem array_payload_wrapped:
  "mapCompletionDataArg (JArr xs) = JObj [(''value'', JArr xs)]
   \<and> (mapCompletionIdArg ident ''complete'' = Inr ids \<longrightarrow>
        snd (snd (complete (recording exec) ident (JArr xs) (d, []))) =
          [(CompleteJobs, [JArr ids, JObj [(''value'', JArr xs)]])])
   \<and> (mapCompletionIdArg ident ''fail'' = Inr ids \<longrightarrow>
        snd (snd (fail (recording exec) ident (JArr xs) (d, []))) =
          [(FailJobs, [JArr ids, JObj [(''value'', JArr xs)]])])"
  by (simp add: mapCompletionDataArg_def complete_calls fail_calls)

theorem array_payload_wrapped_witness:
  "mapCompletionIdArg (JStr ''j1'') ''complete'' = Inr [JStr ''j1'']
   \<and> mapCompletionIdArg (JStr ''j1'') ''fail'' = Inr [JStr ''j1'']
   \<and> snd (snd (complete (recording scripted) (JStr ''j1'') (JArr [JNum 1, JNum 2])
                 ([Inr \<lparr>rowCount = 1, rows = []\<rparr>], []))) =
        [(CompleteJobs, [JArr [JStr ''j1''], JObj [(''value'', JArr [JNum 1, JNum 2])]])]
   \<and> snd (snd (fail (recording scripted) (JStr ''j1'') (JArr [])
                 ([Inr \<lparr>rowCount = 1, rows = []\<rparr>], []))) =
        [(FailJobs, [JArr [JStr ''j1''], JObj [(''value'', JArr [])]])]"
  using array_payload_wrapped
          [where xs = "[JNum 1, JNum 2]" and ident = "JStr ''j1''" and ids = "[JStr ''j1'']"
             and exec = scripted and d = "[Inr \<lparr>rowCount = 1, rows = []\<rparr>]"]
        array_payload_wrapped
          [where xs = "[]" and ident = "JStr ''j1''" and ids = "[JStr ''j1'']"
             and exec = scripted and d = "[Inr \<lparr>rowCount = 1, rows = []\<rparr>]"]
  by (simp add: mapCompletionIdArg_cases)

text \<open>
  Claim C4. For \<open>complete\<close>, \<open>fail\<close> and \<open>cancel\<close> with an id that is truthy and not the
  empty array, the operation runs one command and resolves, when the store does, to the
  object whose \<open>jobs\<close> is the normalised list of ids, whose \<open>requested\<close> is the length of
  that list and whose \<open>updated\<close> is the row count that the store reports, whatever it is.
  A rejection of the store is passed on.
\<close>

theorem completion_response:
  assumes "truthy ident" and "ident \<noteq> JArr []"
  shows "(let ids = (case ident of JArr xs \<Rightarrow> xs | _ \<Rightarrow> [ident]);
              response = (\<lambda>outcome. case outcome of
                  (Inl e, d') \<Rightarrow> (Inl e, d')
                | (Inr result, d') \<Rightarrow>
                    (Inr (JObj [(''jobs'', JArr ids),
                                (''requested'', JNum (int (length ids))),
                                (''updated'', JNum (rowCount result))]), d'))
          in complete exec ident data d =
               response (exec d CompleteJobs [JArr ids, mapCompletionDataArg data])
           \<and> fail exec ident data d =
               response (exec d FailJobs [JArr ids, mapCompletionDataArg data])
           \<and> cancel exec ident d = response (exec d CancelJobs [JArr ids]))"
  using assms
  by (simp add: complete_def fail_def cancel_def mapCompletionIdArg_cases
        mapCompletionResponse_def Let_def split: prod.splits sum.splits)

theorem completion_response_witness:
  "truthy (JArr [JStr ''a'', JStr ''b'']) \<and> JArr [JStr ''a'', JStr ''b''] \<noteq> JArr []
   \<and> complete scripted (JArr [JStr ''a'', JStr ''b'']) JUndefined
        [Inr \<lparr>rowCount = 1, rows = []\<rparr>] =
      (Inr (JObj [(''jobs'', JArr [JStr ''a'', JStr ''b'']),
                  (''requested'', JNum 2), (''updated'', JNum 1)]), [])
   \<and> cancel scripted (JArr [JStr ''a'', JStr ''b'']) [Inr \<lparr>rowCount = 0, rows = []\<rparr>] =
      (Inr (JObj [(''jobs'', JArr [JStr ''a'', JStr ''b'']),
                  (''requested'', JNum 2), (''updated'', JNum 0)]), [])"
  using completion_response
          [where ident = "JArr [JStr ''a'', JStr ''b'']" and exec = scripted
             and data = JUndefined and d = "[Inr \<lparr>rowCount = 1, rows = []\<rparr>]"]
        completion_response
          [where ident = "JArr [JStr ''a'', JStr ''b'']" and exec = scripted
             and data = JUndefined and d = "[Inr \<lparr>rowCount = 0, rows = []\<rparr>]"]
  by (simp add: scripted_def Let_def)

text \<open>
  Claim C9. For \<open>complete\<close>, \<open>fail\<close> and \<open>cancel\<close> with an id that is falsy (absent, null,
  false, 0, the empty string) or the empty array, the operation rejects with
  \<open><op>() requires an id\<close>, and the store receives no call and keeps its state.
\<close>

theorem missing_id_rejected:
  assumes "\<not> truthy ident \<or> ident = JArr []"
  shows "complete exec ident data d = (Inl (AssertionError ''complete() requires an id''), d)
       \<and> fail exec ident data d = (Inl (AssertionError ''fail() requires an id''), d)
       \<and> cancel exec ident d = (Inl (AssertionError ''cancel() requires an id''), d)
       \<and> snd (complete (recording exec) ident data (d, calls)) = (d, calls)
       \<and> snd (fail (recording exec) ident data (d, calls)) = (d, calls)
       \<and> snd (cancel (recording exec) ident (d, calls)) = (d, calls)"
  using assms
  by (auto simp add: complete_def fail_def cancel_def mapCompletionIdArg_cases)

theorem missing_id_rejected_witness:
  "\<not> truthy JUndefined
   \<and> complete scripted JUndefined JNull [Inr \<lparr>rowCount = 1, rows = []\<rparr>] =
       (Inl (AssertionError ''complete() requires an id''), [Inr \<lparr>rowCount = 1, rows = []\<rparr>])
   \<and> snd (cancel (recording scripted) (JArr []) ([Inr \<lparr>rowCount = 1, rows = []\<rparr>], [])) =
       ([Inr \<lparr>rowCount = 1, rows = []\<rparr>], [])"
  using missing_id_rejected
          [where ident = JUndefined and exec = scripted and data = JNull
             and d = "[Inr \<lparr>rowCount = 1, rows = []\<rparr>]"]
        missing_id_rejected
          [where ident = "JArr []" and exec = scripted and data = JNull
             and d = "[Inr \<lparr>rowCount = 1, rows = []\<rparr>]" and calls = "[]"]
  by simp

subsection \<open>createJob and publish\<close>

text \<open>
  Without \<open>singletonNextSlot\<close>, \<open>createJob\<close> is one insert: the id when one row was
  written, null otherwise.
\<close>

lemma createJob_no_retry:
  assumes "\<not> opt_singletonNextSlot options"
  shows "createJob exec gen name data options singletonOffset w =
     (case exec (store w) InsertJob
             (insert_values (gen (issued w)) name data options singletonOffset) of
        (Inl e, d') \<Rightarrow> (Inl e, options, \<lparr>store = d', issued = Suc (issued w)\<rparr>)
      | (Inr result, d') \<Rightarrow>
          (if rowCount result = 1 then Inr (JStr (gen (issued w))) else Inr JNull,
           options, \<lparr>store = d', issued = Suc (issued w)\<rparr>))"
  using assms
  by (subst createJob.simps) (simp add: Let_def split: prod.splits sum.splits)

text \<open>
  With \<open>singletonNextSlot\<close>, an insert that did not write one row is followed by the call
  of \<open>createJob\<close> on the changed options, with \<open>singletonSeconds\<close> as the offset.
\<close>

lemma createJob_retry:
  assumes "opt_singletonNextSlot options"
    and "exec (store w) InsertJob
           (insert_values (gen (issued w)) name data options singletonOffset) = (Inr result, d1)"
    and "rowCount result \<noteq> 1"
  shows "createJob exec gen name data options singletonOffset w =
         createJob exec gen name data
           (options\<lparr>opt_startIn := delay_of (singletonSeconds_of options),
                    opt_singletonNextSlot := False\<rparr>)
           (singletonSeconds_of options) \<lparr>store = d1, issued = Suc (issued w)\<rparr>"
  using assms by (subst createJob.simps) (simp add: Let_def)

lemma singletonSeconds_of_positive:
  "singletonSeconds_of options = Some s \<Longrightarrow> 0 < s"
  by (auto simp add: singletonSeconds_of_def positive_def split: if_splits option.splits)

lemma singletonSeconds_of_retry:
  "singletonSeconds_of (options\<lparr>opt_startIn := x, opt_singletonNextSlot := b\<rparr>) =
   singletonSeconds_of options"
  by (simp add: singletonSeconds_of_def)

lemma calls_no_retry:
  assumes "\<not> opt_singletonNextSlot options"
  shows "calls_of (createJob (recording exec) gen name data options singletonOffset
                     \<lparr>store = (d, calls), issued = n\<rparr>) =
         calls @ [(InsertJob, insert_values (gen n) name data options singletonOffset)]"
  using assms
  by (simp add: createJob_no_retry calls_of_def recording_def split: prod.splits sum.splits)

lemma calls_at_most_two:
  "length (calls_of (createJob (recording exec) gen name data options singletonOffset
                       \<lparr>store = (d, []), issued = n\<rparr>)) \<le> 2"
proof (cases "opt_singletonNextSlot options")
  case False
  then show ?thesis by (simp add: calls_no_retry)
next
  case True
  obtain r d1 where first:
    "exec d InsertJob (insert_values (gen n) name data options singletonOffset) = (r, d1)"
    by (cases "exec d InsertJob (insert_values (gen n) name data options singletonOffset)")
  show ?thesis
  proof (cases r)
    case (Inl e)
    with first show ?thesis
      by (subst createJob.simps) (simp add: Let_def calls_of_def recording_def)
  next
    case (Inr result)
    show ?thesis
    proof (cases "rowCount result = 1")
      case True
      with first Inr show ?thesis
        by (subst createJob.simps) (simp add: Let_def calls_of_def recording_def)
    next
      case False
      have "recording exec (store \<lparr>store = (d, []), issued = n\<rparr>) InsertJob
              (insert_values (gen (issued \<lparr>store = (d, []), issued = n\<rparr>)) name data options
                 singletonOffset) =
            (Inr result, (d1, [(InsertJob, insert_values (gen n) name data options singletonOffset)]))"
        using first Inr by (simp add: recording_def)
      from createJob_retry
             [where exec = "recording exec" and w = "\<lparr>store = (d, []), issued = n\<rparr>"
                and options = options and gen = gen and name = name and data = data
                and singletonOffset = singletonOffset and result = result, OF True this False]
      show ?thesis by (simp add: calls_no_retry)
    qed
  qed
qed

text \<open>
  Claim C1. \<open>publish\<close> hands its checked arguments to \<open>createJob\<close>. Whatever the input,
  \<open>createJob\<close> sends at most two inserts to the store (it is a total function: its
  recursion ends). When the first insert reports zero rows and
  \<open>singletonNextSlot\<close> is set, \<open>createJob\<close> stores \<open>singletonSeconds\<close> in \<open>options.startIn\<close>,
  clears \<open>options.singletonNextSlot\<close>, and its outcome is the outcome of one more insert,
  with a fresh id, whose start delay (value 4) is the text of \<open>singletonSeconds\<close> and
  whose offset (value 9) is \<open>singletonSeconds\<close>, both 0 when \<open>singletonSeconds\<close> is null;
  the store receives exactly these two inserts.
\<close>

theorem createJob_retries_once:
  "(checkPublishArgs c args = Inr (name, data, options) \<longrightarrow>
      publish c exec args w =
        (case createJob exec (uuid c) name data options None w of
           (outcome, options', w') \<Rightarrow> (outcome, w')))
   \<and> length (calls_of (createJob (recording exec) gen name data options singletonOffset
                       \<lparr>store = (d, []), issued = n\<rparr>)) \<le> 2
   \<and> (exec d InsertJob (insert_values (gen n) name data options singletonOffset) =
          (Inr result, d1)
        \<and> rowCount result = 0 \<and> opt_singletonNextSlot options \<longrightarrow>
       (let singletonSeconds = singletonSeconds_of options;
            options' = options\<lparr>opt_startIn := delay_of singletonSeconds,
                               opt_singletonNextSlot := False\<rparr>;
            retry = insert_values (gen (Suc n)) name data options' singletonSeconds
        in createJob exec gen name data options singletonOffset \<lparr>store = d, issued = n\<rparr> =
             (case exec d1 InsertJob retry of
                (Inl e, d2) \<Rightarrow> (Inl e, options', \<lparr>store = d2, issued = Suc (Suc n)\<rparr>)
              | (Inr result2, d2) \<Rightarrow>
                  (if rowCount result2 = 1 then Inr (JStr (gen (Suc n))) else Inr JNull,
                   options', \<lparr>store = d2, issued = Suc (Suc n)\<rparr>))
         \<and> calls_of (createJob (recording exec) gen name data options singletonOffset
                        \<lparr>store = (d, []), issued = n\<rparr>) =
             [(InsertJob, insert_values (gen n) name data options singletonOffset),
              (InsertJob, retry)]
         \<and> retry ! 4 = JStr (case singletonSeconds of None \<Rightarrow> ''0''
                                | Some s \<Rightarrow> decimal (nat s))
         \<and> retry ! 8 = numOrNull singletonSeconds
         \<and> retry ! 9 = JNum (case singletonSeconds of None \<Rightarrow> 0 | Some s \<Rightarrow> s)))"
proof (intro conjI impI)
  assume "checkPublishArgs c args = Inr (name, data, options)"
  then show "publish c exec args w =
        (case createJob exec (uuid c) name data options None w of
           (outcome, options', w') \<Rightarrow> (outcome, w'))"
    by (simp add: publish_def)
next
  show "length (calls_of (createJob (recording exec) gen name data options singletonOffset
                            \<lparr>store = (d, []), issued = n\<rparr>)) \<le> 2"
    by (rule calls_at_most_two)
next
  assume hyp: "exec d InsertJob (insert_values (gen n) name data options singletonOffset) =
                 (Inr result, d1)
               \<and> rowCount result = 0 \<and> opt_singletonNextSlot options"
  let ?ss = "singletonSeconds_of options"
  let ?options' = "options\<lparr>opt_startIn := delay_of ?ss, opt_singletonNextSlot := False\<rparr>"
  let ?retry = "insert_values (gen (Suc n)) name data ?options' ?ss"
  have plain: "createJob exec gen name data options singletonOffset \<lparr>store = d, issued = n\<rparr> =
        createJob exec gen name data ?options' ?ss \<lparr>store = d1, issued = Suc n\<rparr>"
    using hyp
      createJob_retry [where exec = exec and w = "\<lparr>store = d, issued = n\<rparr>"
        and options = options and gen = gen and name = name and data = data
        and singletonOffset = singletonOffset and result = result and ?d1.0 = d1]
    by simp
  have logged: "createJob (recording exec) gen name data options singletonOffset
                  \<lparr>store = (d, []), issued = n\<rparr> =
        createJob (recording exec) gen name data ?options' ?ss
          \<lparr>store = (d1, [(InsertJob, insert_values (gen n) name data options singletonOffset)]),
           issued = Suc n\<rparr>"
    using hyp
      createJob_retry [where exec = "recording exec" and w = "\<lparr>store = (d, []), issued = n\<rparr>"
        and options = options and gen = gen and name = name and data = data
        and singletonOffset = singletonOffset and result = result
        and ?d1.0 = "(d1, [(InsertJob, insert_values (gen n) name data options singletonOffset)])"]
    by (simp add: recording_def)
  have one: "createJob exec gen name data options singletonOffset \<lparr>store = d, issued = n\<rparr> =
             (case exec d1 InsertJob ?retry of
                (Inl e, d2) \<Rightarrow> (Inl e, ?options', \<lparr>store = d2, issued = Suc (Suc n)\<rparr>)
              | (Inr result2, d2) \<Rightarrow>
                  (if rowCount result2 = 1 then Inr (JStr (gen (Suc n))) else Inr JNull,
                   ?options', \<lparr>store = d2, issued = Suc (Suc n)\<rparr>))"
    by (simp only: plain) (simp add: createJob_no_retry split: prod.splits sum.splits)
  have two: "calls_of (createJob (recording exec) gen name data options singletonOffset
                        \<lparr>store = (d, []), issued = n\<rparr>) =
             [(InsertJob, insert_values (gen n) name data options singletonOffset),
              (InsertJob, ?retry)]"
    by (simp only: logged) (simp add: calls_no_retry)
  have three: "?retry ! 4 = JStr (case ?ss of None \<Rightarrow> ''0'' | Some s \<Rightarrow> decimal (nat s))"
    using singletonSeconds_of_positive [of options]
    by (auto simp add: insert_values_def startIn_of_def delay_of_def Let_def
          split: option.splits)
  have four: "?retry ! 8 = numOrNull ?ss"
    by (simp add: insert_values_def singletonSeconds_of_retry Let_def)
  have five: "?retry ! 9 = JNum (case ?ss of None \<Rightarrow> 0 | Some s \<Rightarrow> s)"
    by (auto simp add: insert_values_def orElse_def Let_def split: option.splits)
  show "(let singletonSeconds = singletonSeconds_of options;
            options' = options\<lparr>opt_startIn := delay_of singletonSeconds,
                               opt_singletonNextSlot := False\<rparr>;
            retry = insert_values (gen (Suc n)) name data options' singletonSeconds
        in createJob exec gen name data options singletonOffset \<lparr>store = d, issued = n\<rparr> =
             (case exec d1 InsertJob retry of
                (Inl e, d2) \<Rightarrow> (Inl e, options', \<lparr>store = d2, issued = Suc (Suc n)\<rparr>)
              | (Inr result2, d2) \<Rightarrow>
                  (if rowCount result2 = 1 then Inr (JStr (gen (Suc n))) else Inr JNull,
                   options', \<lparr>store = d2, issued = Suc (Suc n)\<rparr>))
         \<and> calls_of (createJob (recording exec) gen name data options singletonOffset
                        \<lparr>store = (d, []), issued = n\<rparr>) =
             [(InsertJob, insert_values (gen n) name data options singletonOffset),
              (InsertJob, retry)]
         \<and> retry ! 4 = JStr (case singletonSeconds of None \<Rightarrow> ''0''
                                | Some s \<Rightarrow> decimal (nat s))
         \<and> retry ! 8 = numOrNull singletonSeconds
         \<and> retry ! 9 = JNum (case singletonSeconds of None \<Rightarrow> 0 | Some s \<Rightarrow> s))"
    unfolding Let_def using one two three four five by blast
qed

theorem createJob_retries_once_witness:
  "scripted [Inr \<lparr>rowCount = 0, rows = []\<rparr>, Inr \<lparr>rowCount = 1, rows = []\<rparr>] InsertJob
      (insert_values (uuid lenient 0) ''job'' JNull
         (no_options\<lparr>opt_singletonSeconds := Some 60, opt_singletonNextSlot := True\<rparr>) None) =
      (Inr \<lparr>rowCount = 0, rows = []\<rparr>, [Inr \<lparr>rowCount = 1, rows = []\<rparr>])
   \<and> rowCount \<lparr>rowCount = 0, rows = []\<rparr> = 0
   \<and> opt_singletonNextSlot
        (no_options\<lparr>opt_singletonSeconds := Some 60, opt_singletonNextSlot := True\<rparr>)
   \<and> createJob scripted (uuid lenient) ''job'' JNull
        (no_options\<lparr>opt_singletonSeconds := Some 60, opt_singletonNextSlot := True\<rparr>) None
        \<lparr>store = [Inr \<lparr>rowCount = 0, rows = []\<rparr>, Inr \<lparr>rowCount = 1, rows = []\<rparr>],
         issued = 0\<rparr> =
       (Inr (JStr ''id-1''),
        no_options\<lparr>opt_startIn := Seconds 60, opt_singletonSeconds := Some 60\<rparr>,
        \<lparr>store = [], issued = 2\<rparr>)
   \<and> calls_of (createJob (recording scripted) (uuid lenient) ''job'' JNull
        (no_options\<lparr>opt_singletonSeconds := Some 60, opt_singletonNextSlot := True\<rparr>) None
        \<lparr>store = ([Inr \<lparr>rowCount = 0, rows = []\<rparr>, Inr \<lparr>rowCount = 1, rows = []\<rparr>], []),
         issued = 0\<rparr>) =
       [(InsertJob, [JStr ''id-0'', JStr ''job'', JNum 0, JNum 0, JStr ''0'',
                     JStr ''15 minutes'', JNull, JNull, JNum 60, JNum 0]),
        (InsertJob, [JStr ''id-1'', JStr ''job'', JNum 0, JNum 0, JStr ''60'',
                     JStr ''15 minutes'', JNull, JNull, JNum 60, JNum 60])]"
  using createJob_retries_once
          [where exec = scripted and gen = "uuid lenient" and name = "''job''" and data = JNull
             and options = "no_options\<lparr>opt_singletonSeconds := Some 60,
                                        opt_singletonNextSlot := True\<rparr>"
             and singletonOffset = None
             and d = "[Inr \<lparr>rowCount = 0, rows = []\<rparr>, Inr \<lparr>rowCount = 1, rows = []\<rparr>]"
             and n = 0 and result = "\<lparr>rowCount = 0, rows = []\<rparr>"
             and ?d1.0 = "[Inr \<lparr>rowCount = 1, rows = []\<rparr>]"]
  by (simp add: scripted_def lenient_def no_options_def insert_values_def startIn_of_def
        singletonSeconds_of_def positive_def orElse_def orText_def numOrNull_def delay_of_def
        decimal.simps Let_def)

text \<open>
  Claim C2. When the arguments of \<open>publish\<close> are accepted, \<open>singletonNextSlot\<close> is not set
  and the insert reports zero rows, \<open>publish\<close> resolves to null.
\<close>

theorem publish_conflict_gives_null:
  assumes "checkPublishArgs c args = Inr (name, data, options)"
    and "\<not> opt_singletonNextSlot options"
    and "exec (store w) InsertJob
           (insert_values (uuid c (issued w)) name data options None) = (Inr result, d')"
    and "rowCount result = 0"
  shows "publish c exec args w = (Inr JNull, \<lparr>store = d', issued = Suc (issued w)\<rparr>)"
  using assms by (simp add: publish_def createJob_no_retry)

theorem publish_conflict_gives_null_witness:
  "checkPublishArgs lenient [JStr ''job''] = Inr (''job'', JNull, no_options)
   \<and> \<not> opt_singletonNextSlot no_options
   \<and> scripted (store \<lparr>store = [Inr \<lparr>rowCount = 0, rows = []\<rparr>], issued = 0\<rparr>) InsertJob
        (insert_values (uuid lenient (issued \<lparr>store = [Inr \<lparr>rowCount = 0, rows = []\<rparr>], issued = 0\<rparr>))
           ''job'' JNull no_options None) = (Inr \<lparr>rowCount = 0, rows = []\<rparr>, [])
   \<and> rowCount \<lparr>rowCount = 0, rows = []\<rparr> = 0
   \<and> publish lenient scripted [JStr ''job'']
        \<lparr>store = [Inr \<lparr>rowCount = 0, rows = []\<rparr>], issued = 0\<rparr> =
       (Inr JNull, \<lparr>store = [], issued = Suc 0\<rparr>)"
  using publish_conflict_gives_null
          [where c = lenient and args = "[JStr ''job'']" and name = "''job''" and data = JNull
             and options = no_options and exec = scripted
             and w = "\<lparr>store = [Inr \<lparr>rowCount = 0, rows = []\<rparr>], issued = 0\<rparr>"
             and result = "\<lparr>rowCount = 0, rows = []\<rparr>" and d' = "[]"]
  by (simp add: lenient_def no_options_def scripted_def)

text \<open>
  Claim C8. The \<open>singletonSeconds\<close> that \<open>createJob\<close> computes, and sends to the store as
  value 8, is the one the rule of the spec gives: the first set member of
  singletonSeconds, singletonMinutes * 60, singletonHours * 3600, singletonDays * 86400
  in this order, and null exactly when none is set. An option is set when it holds a
  number above 0, the test of the code.
\<close>

theorem singletonSeconds_precedence:
  "singletonSeconds_of options = spec_singletonSeconds options
   \<and> insert_values ident name data options singletonOffset ! 8 =
       numOrNull (spec_singletonSeconds options)
   \<and> (spec_singletonSeconds options = None \<longleftrightarrow>
        \<not> positive (opt_singletonSeconds options) \<and> \<not> positive (opt_singletonMinutes options)
        \<and> \<not> positive (opt_singletonHours options) \<and> \<not> positive (opt_singletonDays options))"
  by (auto simp add: singletonSeconds_of_def spec_singletonSeconds_def first_set_def
        insert_values_def positive_def Let_def mult.commute split: option.splits)

theorem singletonSeconds_precedence_witness:
  "singletonSeconds_of (no_options\<lparr>opt_singletonMinutes := Some 2,
                                     opt_singletonHours := Some 1\<rparr>) = Some 120
   \<and> singletonSeconds_of (no_options\<lparr>opt_singletonSeconds := Some 45,
                                       opt_singletonDays := Some 1\<rparr>) = Some 45
   \<and> singletonSeconds_of (no_options\<lparr>opt_singletonDays := Some 1\<rparr>) = Some 86400
   \<and> singletonSeconds_of no_options = None
   \<and> insert_values ''id-0'' ''job'' JNull no_options None ! 8 = JNull"
  using singletonSeconds_precedence
          [where options = "no_options\<lparr>opt_singletonMinutes := Some 2,
                                        opt_singletonHours := Some 1\<rparr>"]
        singletonSeconds_precedence
          [where options = "no_options\<lparr>opt_singletonSeconds := Some 45,
                                        opt_singletonDays := Some 1\<rparr>"]
        singletonSeconds_precedence
          [where options = "no_options\<lparr>opt_singletonDays := Some 1\<rparr>"]
        singletonSeconds_precedence
          [where options = no_options and ident = "''id-0''" and name = "''job''"
             and data = JNull and singletonOffset = None]
  by (simp add: spec_singletonSeconds_def first_set_def positive_def no_options_def
        numOrNull_def)

subsection \<open>fetch\<close>

text \<open>
  Claim C3, as amended. Let the arguments of \<open>fetch\<close> be accepted and the store answer
  with rows. Without a batch size, or with the batch size 0, one row is asked for, and
  the result is the job itself when one row comes back and null when none does. With a
  batch size \<open>n\<close> other than 0, \<open>n\<close> rows are asked for, and the result is the array of
  the rows, or null when no row comes back; the array has at most \<open>n\<close> jobs when the
  store returns at most the \<open>n\<close> rows it was asked for.
\<close>

theorem fetch_result_shape:
  assumes "checkFetchArgs c (case name of JArr xs \<Rightarrow> xs | _ \<Rightarrow> [name]) batchSize = None"
    and "exec d FetchNextJob
           [JArr (case name of JArr xs \<Rightarrow> xs | _ \<Rightarrow> [name]), JNum (orElse batchSize 1)] =
         (Inr result, d')"
  shows "(batchSize = None \<or> batchSize = Some 0 \<longrightarrow>
            orElse batchSize 1 = 1
          \<and> (length (rows result) = 1 \<longrightarrow>
                fetch c exec name batchSize d = (Inr (rows result ! 0), d'))
          \<and> (length (rows result) = 0 \<longrightarrow>
                fetch c exec name batchSize d = (Inr JNull, d')))
       \<and> (batchSize = Some n \<and> n \<noteq> 0 \<longrightarrow>
            orElse batchSize 1 = n
          \<and> fetch c exec name batchSize d =
              (Inr (if rows result = [] then JNull else JArr (rows result)), d')
          \<and> (length (rows result) \<le> nat n
               \<and> fst (fetch c exec name batchSize d) = Inr (JArr jobs) \<longrightarrow>
                length jobs \<le> nat n))"
  using assms
  by (auto simp add: fetch_def orElse_def truthyNum_def Let_def)

theorem fetch_result_shape_witness:
  "checkFetchArgs lenient (case JStr ''email'' of JArr xs \<Rightarrow> xs | _ \<Rightarrow> [JStr ''email'']) None = None
   \<and> scripted [Inr \<lparr>rowCount = 1, rows = [JObj [(''id'', JStr ''j1'')]]\<rparr>] FetchNextJob
        [JArr [JStr ''email''], JNum 1] =
       (Inr \<lparr>rowCount = 1, rows = [JObj [(''id'', JStr ''j1'')]]\<rparr>, [])
   \<and> fetch lenient scripted (JStr ''email'') None
        [Inr \<lparr>rowCount = 1, rows = [JObj [(''id'', JStr ''j1'')]]\<rparr>] =
       (Inr (JObj [(''id'', JStr ''j1'')]), [])
   \<and> fetch lenient scripted (JStr ''email'') None [Inr \<lparr>rowCount = 0, rows = []\<rparr>] =
       (Inr JNull, [])
   \<and> fetch lenient scripted (JStr ''email'') (Some 0)
        [Inr \<lparr>rowCount = 1, rows = [JObj [(''id'', JStr ''j1'')]]\<rparr>] =
       (Inr (JObj [(''id'', JStr ''j1'')]), [])
   \<and> fetch lenient scripted (JStr ''email'') (Some 1)
        [Inr \<lparr>rowCount = 1, rows = [JObj [(''id'', JStr ''j1'')]]\<rparr>] =
       (Inr (JArr [JObj [(''id'', JStr ''j1'')]]), [])
   \<and> fetch lenient scripted (JStr ''email'') (Some 5)
        [Inr \<lparr>rowCount = 2, rows = [JObj [(''id'', JStr ''j1'')], JObj [(''id'', JStr ''j2'')]]\<rparr>] =
       (Inr (JArr [JObj [(''id'', JStr ''j1'')], JObj [(''id'', JStr ''j2'')]]), [])
   \<and> length [JObj [(''id'', JStr ''j1'')], JObj [(''id'', JStr ''j2'')]] \<le> nat 5
   \<and> fetch lenient scripted (JStr ''email'') (Some 5) [Inr \<lparr>rowCount = 0, rows = []\<rparr>] =
       (Inr JNull, [])"
  using fetch_result_shape
          [where c = lenient and exec = scripted and name = "JStr ''email''"
             and batchSize = None
             and d = "[Inr \<lparr>rowCount = 1, rows = [JObj [(''id'', JStr ''j1'')]]\<rparr>]"
             and result = "\<lparr>rowCount = 1, rows = [JObj [(''id'', JStr ''j1'')]]\<rparr>"
             and d' = "[]"]
        fetch_result_shape
          [where c = lenient and exec = scripted and name = "JStr ''email''"
             and batchSize = None and d = "[Inr \<lparr>rowCount = 0, rows = []\<rparr>]"
             and result = "\<lparr>rowCount = 0, rows = []\<rparr>" and d' = "[]"]
        fetch_result_shape
          [where c = lenient and exec = scripted and name = "JStr ''email''"
             and batchSize = "Some 0"
             and d = "[Inr \<lparr>rowCount = 1, rows = [JObj [(''id'', JStr ''j1'')]]\<rparr>]"
             and result = "\<lparr>rowCount = 1, rows = [JObj [(''id'', JStr ''j1'')]]\<rparr>"
             and d' = "[]"]
        fetch_result_shape
          [where c = lenient and exec = scripted and name = "JStr ''email''"
             and batchSize = "Some 1" and n = 1
             and d = "[Inr \<lparr>rowCount = 1, rows = [JObj [(''id'', JStr ''j1'')]]\<rparr>]"
             and result = "\<lparr>rowCount = 1, rows = [JObj [(''id'', JStr ''j1'')]]\<rparr>"
             and d' = "[]" and jobs = "[JObj [(''id'', JStr ''j1'')]]"]
        fetch_result_shape
          [where c = lenient and exec = scripted and name = "JStr ''email''"
             and batchSize = "Some 5" and n = 5
             and d = "[Inr \<lparr>rowCount = 2, rows = [JObj [(''id'', JStr ''j1'')],
                                                  JObj [(''id'', JStr ''j2'')]]\<rparr>]"
             and result = "\<lparr>rowCount = 2, rows = [JObj [(''id'', JStr ''j1'')],
                                                  JObj [(''id'', JStr ''j2'')]]\<rparr>"
             and d' = "[]"
             and jobs = "[JObj [(''id'', JStr ''j1'')], JObj [(''id'', JStr ''j2'')]]"]
        fetch_result_shape
          [where c = lenient and exec = scripted and name = "JStr ''email''"
             and batchSize = "Some 5" and n = 5 and d = "[Inr \<lparr>rowCount = 0, rows = []\<rparr>]"
             and result = "\<lparr>rowCount = 0, rows = []\<rparr>" and d' = "[]"]
  by (simp add: lenient_def scripted_def orElse_def)

text \<open>
  The claim as first written fails for the batch size 0, which is provided and falsy:
  \<open>fetch(name, 0)\<close> asks the store for one row and resolves to the job itself, not to an
  array of the returned rows.
\<close>

theorem fetch_batchSize_zero_counterexample:
  "checkFetchArgs lenient [JStr ''email''] (Some 0) = None
   \<and> snd (snd (fetch lenient (recording scripted) (JStr ''email'') (Some 0)
                 ([Inr \<lparr>rowCount = 1, rows = [JObj [(''id'', JStr ''j1'')]]\<rparr>], []))) =
       [(FetchNextJob, [JArr [JStr ''email''], JNum 1])]
   \<and> fetch lenient scripted (JStr ''email'') (Some 0)
        [Inr \<lparr>rowCount = 1, rows = [JObj [(''id'', JStr ''j1'')]]\<rparr>] =
       (Inr (JObj [(''id'', JStr ''j1'')]), [])
   \<and> fetch lenient scripted (JStr ''email'') (Some 0)
        [Inr \<lparr>rowCount = 1, rows = [JObj [(''id'', JStr ''j1'')]]\<rparr>] \<noteq>
       (Inr (JArr [JObj [(''id'', JStr ''j1'')]]), [])"
  by (simp add: fetch_def recording_def lenient_def scripted_def orElse_def truthyNum_def
        Let_def)

subsection \<open>Subscriptions\<close>

text \<open>What \<open>fetch\<close> sends to the store: nothing when its arguments are refused.\<close>

lemma fetch_calls:
  "snd (fetch c (recording exec) name batchSize (d, calls)) =
     (let names = (case name of JArr xs \<Rightarrow> xs | _ \<Rightarrow> [name]) in
      case checkFetchArgs c names batchSize of
        Some e \<Rightarrow> (d, calls)
      | None \<Rightarrow>
          (snd (exec d FetchNextJob [JArr names, JNum (orElse batchSize 1)]),
           calls @ [(FetchNextJob, [JArr names, JNum (orElse batchSize 1)])]))"
  by (simp add: fetch_def recording_def Let_def split: option.splits sum.splits prod.splits)

lemma watch_registers:
  assumes "watch c topic options callback m = (Inr v, m')"
    and "\<forall>given kept. applyNewJobCheckInterval c given = Inr kept \<longrightarrow>
           opt_batchSize kept = opt_batchSize given"
  shows "workers m' = workers m @ [last (workers m')]
       \<and> subscriptions m' = subscriptions m @ [(topic, length (workers m))]
       \<and> w_name (last (workers m')) = topic
       \<and> running (last (workers m'))
       \<and> w_batchSize (last (workers m')) = orOpt (opt_batchSize options) (opt_teamSize options)"
proof (cases "opt_newJobCheckInterval options \<noteq> None \<or> opt_newJobCheckIntervalSeconds options \<noteq> None")
  case True
  let ?o1 = "options\<lparr>opt_batchSize := orOpt (opt_batchSize options) (opt_teamSize options)\<rparr>"
  from assms(1) True obtain kept where k: "applyNewJobCheckInterval c ?o1 = Inr kept"
    by (auto simp add: watch_def Let_def split: if_splits sum.splits)
  with assms(2) have "opt_batchSize kept = opt_batchSize ?o1" by blast
  with assms(1) True k show ?thesis
    by (auto simp add: watch_def Let_def split: if_splits sum.splits)
next
  case False
  with assms(1) show ?thesis
    by (auto simp add: watch_def Let_def split: if_splits sum.splits)
qed

text \<open>
  Claim C6, as amended. Let the options of a call to \<open>subscribe\<close> or \<open>onComplete\<close> have
  no \<open>batchSize\<close>, and let the interval check leave the batch size alone. When the call
  succeeds it registers a running worker for the name. If \<open>teamSize\<close> is present and is a
  number \<open>t\<close> other than 0, every poll of this worker is \<open>fetch(name, t)\<close> and asks the
  store for \<open>t\<close> jobs; if \<open>teamSize\<close> is absent or 0, every poll is
  \<open>fetch(name, teamSize)\<close> and asks the store for 1 job.
\<close>

theorem batchSize_defaults_to_teamSize:
  assumes "checkSubscribeArgs c name args = Inr (options, callback)"
    and "opt_batchSize options = None"
    and "\<forall>given kept. applyNewJobCheckInterval c given = Inr kept \<longrightarrow>
           opt_batchSize kept = opt_batchSize given"
  shows "subscribe c name args m = watch c name options callback m
       \<and> onComplete c name args m = watch c (name @ completedJobSuffix c) options callback m
       \<and> (watch c topic options callback m = (Inr v, m') \<longrightarrow>
            workers m' = workers m @ [last (workers m')]
          \<and> subscriptions m' = subscriptions m @ [(topic, length (workers m))]
          \<and> w_name (last (workers m')) = topic
          \<and> running (last (workers m'))
          \<and> (opt_teamSize options = Some t \<and> t \<noteq> 0 \<longrightarrow>
                w_batchSize (last (workers m')) = Some t
              \<and> poll c exec (last (workers m')) d = fetch c exec (JStr topic) (Some t) d
              \<and> (checkFetchArgs c [JStr topic] (Some t) = None \<longrightarrow>
                   snd (snd (poll c (recording exec) (last (workers m')) (d, []))) =
                     [(FetchNextJob, [JArr [JStr topic], JNum t])]))
          \<and> (opt_teamSize options = None \<or> opt_teamSize options = Some 0 \<longrightarrow>
                w_batchSize (last (workers m')) = opt_teamSize options
              \<and> poll c exec (last (workers m')) d =
                  fetch c exec (JStr topic) (opt_teamSize options) d
              \<and> (checkFetchArgs c [JStr topic] (opt_teamSize options) = None \<longrightarrow>
                   snd (snd (poll c (recording exec) (last (workers m')) (d, []))) =
                     [(FetchNextJob, [JArr [JStr topic], JNum 1])])))"
proof (intro conjI impI)
  show "subscribe c name args m = watch c name options callback m"
    using assms(1) by (simp add: subscribe_def)
  show "onComplete c name args m = watch c (name @ completedJobSuffix c) options callback m"
    using assms(1) by (simp add: onComplete_def)
next
  assume w: "watch c topic options callback m = (Inr v, m')"
  note reg = watch_registers [OF w assms(3)]
  from reg show "workers m' = workers m @ [last (workers m')]" by blast
  from reg show "subscriptions m' = subscriptions m @ [(topic, length (workers m))]" by blast
  from reg show "w_name (last (workers m')) = topic" by blast
  from reg show "running (last (workers m'))" by blast
  {
    assume t: "opt_teamSize options = Some t \<and> t \<noteq> 0"
    with reg assms(2) show b: "w_batchSize (last (workers m')) = Some t"
      by (simp add: orOpt_def truthyNum_def)
    from reg b show "poll c exec (last (workers m')) d = fetch c exec (JStr topic) (Some t) d"
      by (simp add: poll_def)
    assume "checkFetchArgs c [JStr topic] (Some t) = None"
    with reg b t show "snd (snd (poll c (recording exec) (last (workers m')) (d, []))) =
                     [(FetchNextJob, [JArr [JStr topic], JNum t])]"
      by (simp add: poll_def fetch_calls orElse_def Let_def)
  }
  {
    assume n: "opt_teamSize options = None \<or> opt_teamSize options = Some 0"
    with reg assms(2) show b: "w_batchSize (last (workers m')) = opt_teamSize options"
      by (auto simp add: orOpt_def truthyNum_def)
    from reg b show "poll c exec (last (workers m')) d =
                       fetch c exec (JStr topic) (opt_teamSize options) d"
      by (simp add: poll_def)
    assume "checkFetchArgs c [JStr topic] (opt_teamSize options) = None"
    with reg b n show "snd (snd (poll c (recording exec) (last (workers m')) (d, []))) =
                     [(FetchNextJob, [JArr [JStr topic], JNum 1])]"
      by (auto simp add: poll_def fetch_calls orElse_def Let_def)
  }
qed

theorem batchSize_defaults_to_teamSize_witness:
  "checkSubscribeArgs (lenient_with (no_subscribe_options\<lparr>opt_teamSize := Some 3\<rparr>))
      ''email'' [] =
     Inr (no_subscribe_options\<lparr>opt_teamSize := Some 3\<rparr>, JFun ''handler'')
   \<and> opt_batchSize (no_subscribe_options\<lparr>opt_teamSize := Some 3\<rparr>) = None
   \<and> subscribe (lenient_with (no_subscribe_options\<lparr>opt_teamSize := Some 3\<rparr>)) ''email'' []
        new_manager =
       (Inr (JBool True),
        \<lparr>subscriptions = [(''email'', 0)],
         workers = [\<lparr>w_name = ''email'', w_batchSize = Some 3, w_callback = JFun ''handler'',
                     w_interval = Some 1000, running = True\<rparr>]\<rparr>)
   \<and> snd (snd (poll (lenient_with (no_subscribe_options\<lparr>opt_teamSize := Some 3\<rparr>))
                 (recording scripted)
                 \<lparr>w_name = ''email'', w_batchSize = Some 3, w_callback = JFun ''handler'',
                  w_interval = Some 1000, running = True\<rparr>
                 ([Inr \<lparr>rowCount = 0, rows = []\<rparr>], []))) =
       [(FetchNextJob, [JArr [JStr ''email''], JNum 3])]
   \<and> subscribe lenient ''email'' [] new_manager =
       (Inr (JBool True),
        \<lparr>subscriptions = [(''email'', 0)],
         workers = [\<lparr>w_name = ''email'', w_batchSize = None, w_callback = JFun ''handler'',
                     w_interval = Some 1000, running = True\<rparr>]\<rparr>)
   \<and> snd (snd (poll lenient (recording scripted)
                 \<lparr>w_name = ''email'', w_batchSize = None, w_callback = JFun ''handler'',
                  w_interval = Some 1000, running = True\<rparr>
                 ([Inr \<lparr>rowCount = 0, rows = []\<rparr>], []))) =
       [(FetchNextJob, [JArr [JStr ''email''], JNum 1])]"
  using batchSize_defaults_to_teamSize
          [where c = "lenient_with (no_subscribe_options\<lparr>opt_teamSize := Some 3\<rparr>)"
             and name = "''email''" and args = "[]"
             and options = "no_subscribe_options\<lparr>opt_teamSize := Some 3\<rparr>"
             and callback = "JFun ''handler''" and m = new_manager and topic = "''email''"
             and v = "JBool True"
             and m' = "\<lparr>subscriptions = [(''email'', 0)],
                       workers = [\<lparr>w_name = ''email'', w_batchSize = Some 3,
                                   w_callback = JFun ''handler'', w_interval = Some 1000,
                                   running = True\<rparr>]\<rparr>"
             and t = 3 and exec = scripted and d = "[Inr \<lparr>rowCount = 0, rows = []\<rparr>]"]
        batchSize_defaults_to_teamSize
          [where c = lenient and name = "''email''" and args = "[]"
             and options = no_subscribe_options
             and callback = "JFun ''handler''" and m = new_manager and topic = "''email''"
             and v = "JBool True"
             and m' = "\<lparr>subscriptions = [(''email'', 0)],
                       workers = [\<lparr>w_name = ''email'', w_batchSize = None,
                                   w_callback = JFun ''handler'', w_interval = Some 1000,
                                   running = True\<rparr>]\<rparr>"
             and exec = scripted and d = "[Inr \<lparr>rowCount = 0, rows = []\<rparr>]"]
  by (simp add: lenient_with_def lenient_def no_subscribe_options_def new_manager_def
        watch_def name_in_def object_prototype_names_def orOpt_def truthyNum_def Let_def)

text \<open>
  The claim as first written fails for the team size 0, which is present and falsy: the
  worker keeps the batch size 0 and every poll asks the store for 1 job, not for 0.
\<close>

theorem teamSize_zero_counterexample:
  "checkSubscribeArgs (lenient_with (no_subscribe_options\<lparr>opt_teamSize := Some 0\<rparr>))
      ''email'' [] =
     Inr (no_subscribe_options\<lparr>opt_teamSize := Some 0\<rparr>, JFun ''handler'')
   \<and> opt_batchSize (no_subscribe_options\<lparr>opt_teamSize := Some 0\<rparr>) = None
   \<and> opt_teamSize (no_subscribe_options\<lparr>opt_teamSize := Some 0\<rparr>) = Some 0
   \<and> subscribe (lenient_with (no_subscribe_options\<lparr>opt_teamSize := Some 0\<rparr>)) ''email'' []
        new_manager =
       (Inr (JBool True),
        \<lparr>subscriptions = [(''email'', 0)],
         workers = [\<lparr>w_name = ''email'', w_batchSize = Some 0, w_callback = JFun ''handler'',
                     w_interval = Some 1000, running = True\<rparr>]\<rparr>)
   \<and> snd (snd (poll (lenient_with (no_subscribe_options\<lparr>opt_teamSize := Some 0\<rparr>))
                 (recording scripted)
                 \<lparr>w_name = ''email'', w_batchSize = Some 0, w_callback = JFun ''handler'',
                  w_interval = Some 1000, running = True\<rparr>
                 ([Inr \<lparr>rowCount = 0, rows = []\<rparr>], []))) =
       [(FetchNextJob, [JArr [JStr ''email''], JNum 1])]
   \<and> JNum 1 \<noteq> JNum 0"
  by (simp add: subscribe_def watch_def poll_def fetch_def recording_def name_in_def
        object_prototype_names_def lenient_with_def lenient_def no_subscribe_options_def
        new_manager_def scripted_def orOpt_def orElse_def truthyNum_def Let_def)

text \<open>
  A predicate that holds of at most one position of a list is satisfied by at most one
  element of the filtered list.
\<close>

lemma filter_at_most_one:
  assumes "\<And>i j. i < length xs \<Longrightarrow> j < length xs \<Longrightarrow> P (xs ! i) \<Longrightarrow> P (xs ! j) \<Longrightarrow> i = j"
  shows "length (filter P xs) \<le> 1"
  using assms
proof (induction xs)
  case Nil
  then show ?case by simp
next
  case (Cons x xs)
  have tail: "\<And>i j. i < length xs \<Longrightarrow> j < length xs \<Longrightarrow> P (xs ! i) \<Longrightarrow> P (xs ! j) \<Longrightarrow> i = j"
  proof -
    fix i j
    assume "i < length xs" "j < length xs" "P (xs ! i)" "P (xs ! j)"
    then have "Suc i = Suc j"
      using Cons.prems [of "Suc i" "Suc j"] by simp
    then show "i = j" by simp
  qed
  show ?case
  proof (cases "P x")
    case False
    then show ?thesis using Cons.IH tail by simp
  next
    case True
    have "filter P xs = []"
    proof (rule ccontr)
      assume "filter P xs \<noteq> []"
      then obtain y where "y \<in> set xs" "P y"
        by (metis filter_False)
      then obtain k where "k < length xs" "xs ! k = y"
        by (auto simp add: in_set_conv_nth)
      then have "0 = Suc k"
        using Cons.prems [of 0 "Suc k"] True \<open>P y\<close> by simp
      then show False by simp
    qed
    then show ?thesis using True by simp
  qed
qed

lemma registry_ok_pollers:
  assumes "registry_ok m"
  shows "length (pollers name m) \<le> 1"
  unfolding pollers_def
proof (rule filter_at_most_one)
  fix i j
  assume i: "i < length (workers m)" and j: "j < length (workers m)"
    and pi: "running (workers m ! i) \<and> w_name (workers m ! i) = name"
    and pj: "running (workers m ! j) \<and> w_name (workers m ! j) = name"
  from assms i pi have "(name, i) \<in> set (subscriptions m)"
    by (auto simp add: registry_ok_def)
  moreover from assms j pj have "(name, j) \<in> set (subscriptions m)"
    by (auto simp add: registry_ok_def)
  moreover from assms have "distinct (map fst (subscriptions m))"
    by (simp add: registry_ok_def)
  ultimately show "i = j"
    by (meson eq_key_imp_eq_value)
qed

lemma registry_ok_new: "registry_ok new_manager"
  by (simp add: registry_ok_def new_manager_def)

lemma registry_ok_watch:
  assumes "registry_ok m"
  shows "registry_ok (snd (watch c name options callback m))"
proof (cases "name_in name (subscriptions m)")
  case True
  then show ?thesis using assms by (simp add: watch_def)
next
  case False
  then have fresh: "name \<notin> fst ` set (subscriptions m)"
    by (simp add: name_in_def)
  show ?thesis
    using assms False fresh
    by (auto simp add: watch_def registry_ok_def Let_def nth_append less_Suc_eq
          split: sum.splits)
qed

lemma unsubscribe_keys:
  "map fst (subscriptions (snd (unsubscribe name m))) =
   filter (\<lambda>k. k \<noteq> name) (map fst (subscriptions m))"
proof (cases "map_of (subscriptions m) name")
  case None
  then have "name \<notin> fst ` set (subscriptions m)"
    by (simp add: map_of_eq_None_iff)
  then have "filter (\<lambda>k. k \<noteq> name) (map fst (subscriptions m)) = map fst (subscriptions m)"
    by (auto simp add: filter_id_conv)
  with None show ?thesis by (simp add: unsubscribe_def)
next
  case (Some a)
  then show ?thesis
    by (simp add: unsubscribe_def filter_map o_def case_prod_unfold)
qed

lemma registry_ok_unsubscribe:
  assumes "registry_ok m"
  shows "registry_ok (snd (unsubscribe name m))"
proof (cases "map_of (subscriptions m) name")
  case None
  then show ?thesis using assms by (simp add: unsubscribe_def)
next
  case (Some a)
  then have mem: "(name, a) \<in> set (subscriptions m)"
    by (rule map_of_SomeD)
  from assms have dist: "distinct (map fst (subscriptions m))"
    and valid: "\<forall>(k, b) \<in> set (subscriptions m). b < length (workers m)"
    and live: "\<forall>b < length (workers m).
          running (workers m ! b) \<longrightarrow> (w_name (workers m ! b), b) \<in> set (subscriptions m)"
    by (simp_all add: registry_ok_def)
  from valid mem have a: "a < length (workers m)" by auto
  let ?m' = "snd (unsubscribe name m)"
  have subs: "subscriptions ?m' = filter (\<lambda>(k, b). k \<noteq> name) (subscriptions m)"
    and wks: "workers ?m' = (workers m)[a := (workers m ! a)\<lparr>running := False\<rparr>]"
    using Some by (simp_all add: unsubscribe_def)
  have d': "distinct (map fst (subscriptions ?m'))"
    using dist by (simp add: unsubscribe_keys)
  have v': "\<forall>(k, b) \<in> set (subscriptions ?m'). b < length (workers ?m')"
    using valid by (auto simp add: subs wks)
  have l': "\<forall>b < length (workers ?m').
          running (workers ?m' ! b) \<longrightarrow> (w_name (workers ?m' ! b), b) \<in> set (subscriptions ?m')"
  proof (intro allI impI)
    fix b
    assume b: "b < length (workers ?m')" and run: "running (workers ?m' ! b)"
    from b have b': "b < length (workers m)" by (simp add: wks)
    have ne: "b \<noteq> a"
    proof
      assume "b = a"
      with run a show False by (simp add: wks)
    qed
    then have same: "workers ?m' ! b = workers m ! b" by (simp add: wks)
    with run live b' have old: "(w_name (workers m ! b), b) \<in> set (subscriptions m)" by simp
    have "w_name (workers m ! b) \<noteq> name"
    proof
      assume "w_name (workers m ! b) = name"
      with old have "(name, b) \<in> set (subscriptions m)" by simp
      with mem dist have "a = b" by (meson eq_key_imp_eq_value)
      with ne show False by simp
    qed
    with old show "(w_name (workers ?m' ! b), b) \<in> set (subscriptions ?m')"
      by (simp add: same subs)
  qed
  from d' v' l' show ?thesis by (simp add: registry_ok_def)
qed

lemma registry_ok_fold_unsubscribe:
  "registry_ok m \<Longrightarrow> registry_ok (fold (\<lambda>name acc. snd (unsubscribe name acc)) names m)"
  by (induction names arbitrary: m) (simp_all add: registry_ok_unsubscribe)

lemma fold_unsubscribe_keys:
  "map fst (subscriptions (fold (\<lambda>name acc. snd (unsubscribe name acc)) names m)) =
   filter (\<lambda>k. k \<notin> set names) (map fst (subscriptions m))"
proof (induction names arbitrary: m)
  case Nil
  then show ?case by simp
next
  case (Cons name names)
  show ?case
    by (simp add: Cons.IH unsubscribe_keys)
qed

lemma registry_ok_stop:
  assumes "registry_ok m"
  shows "registry_ok (snd (stop m))"
proof -
  let ?m' = "fold (\<lambda>name acc. snd (unsubscribe name acc)) (map fst (subscriptions m)) m"
  have ok: "registry_ok ?m'"
    using assms by (rule registry_ok_fold_unsubscribe)
  have "map fst (subscriptions ?m') = []"
    by (simp add: fold_unsubscribe_keys)
  then have none: "subscriptions ?m' = []" by simp
  with ok have "\<forall>b < length (workers ?m'). \<not> running (workers ?m' ! b)"
    by (auto simp add: registry_ok_def)
  then show ?thesis
    by (simp add: stop_def Let_def registry_ok_def)
qed

lemma registry_ok_perform:
  "registry_ok m \<Longrightarrow> registry_ok (perform c x m)"
  by (cases x)
     (auto simp add: subscribe_def onComplete_def offComplete_def registry_ok_watch
        registry_ok_unsubscribe registry_ok_stop split: sum.splits)

lemma registry_ok_run: "registry_ok (run c calls)"
proof -
  have "registry_ok m \<Longrightarrow> registry_ok (fold (perform c) calls m)" for m
    by (induction calls arbitrary: m) (simp_all add: registry_ok_perform)
  then show ?thesis by (simp add: run_def registry_ok_new)
qed

text \<open>
  Claim C7. A call to \<open>subscribe\<close> (or \<open>onComplete\<close>) for a name that is already a key of
  the registry rejects, with the error of the argument check or with the assertion
  error of \<open>watch\<close>, and leaves the manager as it was: no worker is added or replaced.
  In every state that a manager reaches from its construction by calls of
  \<open>subscribe\<close>, \<open>onComplete\<close>, \<open>unsubscribe\<close>, \<open>offComplete\<close> and \<open>stop\<close>, at most one
  running worker exists for a name.
\<close>

theorem one_poller_per_name:
  "(name \<in> set (map fst (subscriptions m)) \<longrightarrow>
      subscribe c name args m =
        (Inl (case checkSubscribeArgs c name args of
                Inl e \<Rightarrow> e
              | Inr accepted \<Rightarrow>
                  AssertionError ''this job has already been subscribed on this instance.''), m))
   \<and> (name @ completedJobSuffix c \<in> set (map fst (subscriptions m)) \<longrightarrow>
      onComplete c name args m =
        (Inl (case checkSubscribeArgs c name args of
                Inl e \<Rightarrow> e
              | Inr accepted \<Rightarrow>
                  AssertionError ''this job has already been subscribed on this instance.''), m))
   \<and> length (pollers name (run c calls)) \<le> 1"
proof (intro conjI impI)
  assume "name \<in> set (map fst (subscriptions m))"
  then show "subscribe c name args m =
        (Inl (case checkSubscribeArgs c name args of
                Inl e \<Rightarrow> e
              | Inr accepted \<Rightarrow>
                  AssertionError ''this job has already been subscribed on this instance.''), m)"
    by (simp add: subscribe_def watch_def name_in_def split: sum.splits)
next
  assume "name @ completedJobSuffix c \<in> set (map fst (subscriptions m))"
  then show "onComplete c name args m =
        (Inl (case checkSubscribeArgs c name args of
                Inl e \<Rightarrow> e
              | Inr accepted \<Rightarrow>
                  AssertionError ''this job has already been subscribed on this instance.''), m)"
    by (simp add: onComplete_def watch_def name_in_def split: sum.splits)
next
  show "length (pollers name (run c calls)) \<le> 1"
    by (rule registry_ok_pollers) (rule registry_ok_run)
qed

theorem one_poller_per_name_witness:
  "''email'' \<in> set (map fst (subscriptions (run lenient [Subscribe ''email'' []])))
   \<and> subscribe lenient ''email'' [] (run lenient [Subscribe ''email'' []]) =
       (Inl (AssertionError ''this job has already been subscribed on this instance.''),
        run lenient [Subscribe ''email'' []])
   \<and> ''email'' @ completedJobSuffix lenient
        \<in> set (map fst (subscriptions (run lenient [OnComplete ''email'' []])))
   \<and> onComplete lenient ''email'' [] (run lenient [OnComplete ''email'' []]) =
       (Inl (AssertionError ''this job has already been subscribed on this instance.''),
        run lenient [OnComplete ''email'' []])
   \<and> length (pollers ''email''
        (run lenient [Subscribe ''email'' [], Subscribe ''email'' [], Unsubscribe ''email'',
                      Subscribe ''email'' []])) = 1"
  using one_poller_per_name
          [where c = lenient and name = "''email''" and args = "[]"
             and m = "run lenient [Subscribe ''email'' []]"
             and calls = "[Subscribe ''email'' [], Subscribe ''email'' [], Unsubscribe ''email'',
                           Subscribe ''email'' []]"]
        one_poller_per_name
          [where c = lenient and name = "''email''" and args = "[]"
             and m = "run lenient [OnComplete ''email'' []]" and calls = "[]"]
  by (simp add: run_def subscribe_def onComplete_def unsubscribe_def watch_def name_in_def
        object_prototype_names_def lenient_def no_subscribe_options_def new_manager_def
        pollers_def orOpt_def truthyNum_def Let_def)

end
